theory Spec2Isabelle
  imports Complex_Main
begin

section \<open>The sound engine of the Study Room Focus Simulator\<close>

text \<open>
  A shallow embedding of the class \<^verbatim>\<open>SoundEngine\<close> of \<^verbatim>\<open>src/app.js\<close>. The engine
  mutates its own fields, the audio nodes it creates through the Web Audio API, and the
  status elements of the page; all of that is one explicit state, the \<open>world\<close>,
  which every method takes and returns.

  Conventions of the model:
  \<^item> the five keys of \<^verbatim>\<open>this.sounds\<close> are a closed datatype, so a lookup with an
    unknown name does not arise;
  \<^item> an audio node is an object with identity: nodes live in a store (\<open>heap\<close>) and the
    node list of a sound holds their addresses, so that writing the gain of a node is
    seen by everything that refers to it;
  \<^item> numbers are real numbers: the arithmetic of the source is taken exactly, not in
    IEEE doubles;
  \<^item> the Web Audio API is taken to be present (its factory methods return a node);
  \<^item> an \<^verbatim>\<open>async\<close> method is run to completion before the next call starts.
\<close>

subsection \<open>Data\<close>

datatype sound_name = Rain | Alpha | Theta | Beta | Gamma

text \<open>\<^verbatim>\<open>Object.keys(this.sounds)\<close>: the keys in the order the constructor inserts them.\<close>

definition sound_keys :: "sound_name list" where
  "sound_keys = [Rain, Alpha, Theta, Beta, Gamma]"

type_synonym node_id = nat

datatype osc_type = Sine | Square | Sawtooth | Triangle

datatype playback = Unscheduled | Started | Finished

text \<open>
  The four kinds of node the engine creates, each with the attributes the engine writes:
  \<^item> \<open>GainNode g\<close>: \<^verbatim>\<open>gain.value\<close>;
  \<^item> \<open>ScriptProcessorNode n h\<close>: the buffer size and, once \<^verbatim>\<open>onaudioprocess\<close> is
    assigned, the variable \<^verbatim>\<open>lastOut\<close> its handler closes over;
  \<^item> \<open>OscillatorNode f t p\<close>: \<^verbatim>\<open>frequency.value\<close>, \<^verbatim>\<open>type\<close> and whether
    \<^verbatim>\<open>start()\<close> and \<^verbatim>\<open>stop()\<close> have been called;
  \<^item> \<open>StereoPannerNode p\<close>: \<^verbatim>\<open>pan.value\<close>.
\<close>

datatype audio_node =
    GainNode real
  | ScriptProcessorNode nat "real option"
  | OscillatorNode real osc_type playback
  | StereoPannerNode real

datatype endpoint = Destination | Node node_id

datatype context_state = Suspended | Running | Closed

record audio_context =
  ctx_state :: context_state
  resume_requested :: bool

record sound =
  playing :: bool
  nodes :: "node_id list"

text \<open>
  The element \<^verbatim>\<open>${soundName}Status\<close>: its text and whether its class list holds
  \<^verbatim>\<open>'playing'\<close>.
\<close>

record status_element =
  textContent :: string
  class_playing :: bool

text \<open>
  The fields of the engine (\<open>audioContext\<close>, \<open>sounds\<close>, \<open>currentPlayingSound\<close>)
  and the part of the browser the engine acts on:
  \<^item> \<open>heap\<close>, \<open>next_id\<close>: the audio nodes created so far and the next fresh address;
  \<^item> \<open>wires\<close>: the connections made by \<^verbatim>\<open>connect\<close>, source first;
  \<^item> \<open>new_context_state\<close>: the state a newly constructed \<^verbatim>\<open>AudioContext\<close> has
    (the autoplay policy of the browser decides it);
  \<^item> \<open>volume_slider\<close>: for each element \<^verbatim>\<open>${soundName}Volume\<close> that exists, the integer
    \<^verbatim>\<open>parseInt(slider.value)\<close> reads from it;
  \<^item> \<open>status\<close>: the elements \<^verbatim>\<open>${soundName}Status\<close> that exist.
\<close>

record world =
  audioContext :: "audio_context option"
  sounds :: "sound_name \<Rightarrow> sound"
  currentPlayingSound :: "sound_name option"
  heap :: "node_id \<rightharpoonup> audio_node"
  next_id :: node_id
  wires :: "(node_id \<times> endpoint) list"
  new_context_state :: context_state
  volume_slider :: "sound_name \<Rightarrow> int option"
  status :: "sound_name \<Rightarrow> status_element option"

text \<open>The constructor: no context, every sound stopped with no nodes, nothing remembered.\<close>

definition new_SoundEngine :: "world \<Rightarrow> world" where
  "new_SoundEngine w =
     w\<lparr>audioContext := None,
       sounds := (\<lambda>_. \<lparr>playing = False, nodes = []\<rparr>),
       currentPlayingSound := None\<rparr>"

text \<open>
  A page as the browser has it before any script runs: no audio node, every slider at 70,
  every status element empty. The engine fields are set by \<open>new_SoundEngine\<close>.
\<close>

definition fresh_page :: world where
  "fresh_page =
     \<lparr>audioContext = None,
      sounds = (\<lambda>_. \<lparr>playing = False, nodes = []\<rparr>),
      currentPlayingSound = None,
      heap = Map.empty,
      next_id = 0,
      wires = [],
      new_context_state = Running,
      volume_slider = (\<lambda>_. Some 70),
      status = (\<lambda>_. Some \<lparr>textContent = [], class_playing = False\<rparr>)\<rparr>"

subsection \<open>The Web Audio primitives the engine calls\<close>

definition createNode :: "audio_node \<Rightarrow> world \<Rightarrow> node_id \<times> world" where
  "createNode n w =
     (next_id w, w\<lparr>heap := (heap w)(next_id w \<mapsto> n), next_id := Suc (next_id w)\<rparr>)"

text \<open>The factory methods, with the default attributes of the Web Audio API.\<close>

definition createGain :: "world \<Rightarrow> node_id \<times> world" where
  "createGain = createNode (GainNode 1)"

definition createScriptProcessor :: "nat \<Rightarrow> world \<Rightarrow> node_id \<times> world" where
  "createScriptProcessor bufferSize = createNode (ScriptProcessorNode bufferSize None)"

definition createOscillator :: "world \<Rightarrow> node_id \<times> world" where
  "createOscillator = createNode (OscillatorNode 440 Sine Unscheduled)"

definition createStereoPanner :: "world \<Rightarrow> node_id \<times> world" where
  "createStereoPanner = createNode (StereoPannerNode 0)"

text \<open>A write to an object in the store; nothing happens at an address that holds none.\<close>

definition update_node :: "node_id \<Rightarrow> (audio_node \<Rightarrow> audio_node) \<Rightarrow> world \<Rightarrow> world" where
  "update_node i f w =
     (case heap w i of Some n \<Rightarrow> w\<lparr>heap := (heap w)(i \<mapsto> f n)\<rparr> | None \<Rightarrow> w)"

text \<open>Attribute writes. A write to an attribute the node does not have changes nothing
  the model observes.\<close>

definition set_gain :: "node_id \<Rightarrow> real \<Rightarrow> world \<Rightarrow> world" where
  "set_gain i v = update_node i (\<lambda>n. case n of GainNode _ \<Rightarrow> GainNode v | _ \<Rightarrow> n)"

definition set_frequency :: "node_id \<Rightarrow> real \<Rightarrow> world \<Rightarrow> world" where
  "set_frequency i v =
     update_node i (\<lambda>n. case n of OscillatorNode _ t p \<Rightarrow> OscillatorNode v t p | _ \<Rightarrow> n)"

definition set_type :: "node_id \<Rightarrow> osc_type \<Rightarrow> world \<Rightarrow> world" where
  "set_type i t =
     update_node i (\<lambda>n. case n of OscillatorNode f _ p \<Rightarrow> OscillatorNode f t p | _ \<Rightarrow> n)"

definition set_pan :: "node_id \<Rightarrow> real \<Rightarrow> world \<Rightarrow> world" where
  "set_pan i v =
     update_node i (\<lambda>n. case n of StereoPannerNode _ \<Rightarrow> StereoPannerNode v | _ \<Rightarrow> n)"

text \<open>\<^verbatim>\<open>node.onaudioprocess = handler\<close>, the handler closing over \<^verbatim>\<open>lastOut\<close>.\<close>

definition set_onaudioprocess :: "node_id \<Rightarrow> real \<Rightarrow> world \<Rightarrow> world" where
  "set_onaudioprocess i lastOut =
     update_node i (\<lambda>n. case n of ScriptProcessorNode b _ \<Rightarrow> ScriptProcessorNode b (Some lastOut)
                              | _ \<Rightarrow> n)"

definition connect :: "node_id \<Rightarrow> endpoint \<Rightarrow> world \<Rightarrow> world" where
  "connect src dst w = w\<lparr>wires := wires w @ [(src, dst)]\<rparr>"

text \<open>\<^verbatim>\<open>node.disconnect()\<close> removes every outgoing connection of the node.\<close>

definition disconnect :: "node_id \<Rightarrow> world \<Rightarrow> world" where
  "disconnect src w = w\<lparr>wires := filter (\<lambda>c. fst c \<noteq> src) (wires w)\<rparr>"

text \<open>\<^verbatim>\<open>osc.start()\<close>; the engine calls it on oscillators it has just created.\<close>

definition node_start :: "node_id \<Rightarrow> world \<Rightarrow> world" where
  "node_start i =
     update_node i (\<lambda>n. case n of OscillatorNode f t Unscheduled \<Rightarrow> OscillatorNode f t Started
                              | _ \<Rightarrow> n)"

text \<open>
  \<^verbatim>\<open>try { node.stop() } catch (e) {}\<close>: a started oscillator is halted; on one that
  was never started \<^verbatim>\<open>stop\<close> throws and the exception is swallowed.
\<close>

definition try_stop :: "node_id \<Rightarrow> world \<Rightarrow> world" where
  "try_stop i =
     update_node i (\<lambda>n. case n of OscillatorNode f t Started \<Rightarrow> OscillatorNode f t Finished
                              | _ \<Rightarrow> n)"

text \<open>\<^verbatim>\<open>node.stop\<close> is defined on oscillators only, \<^verbatim>\<open>node.gain\<close> on gain nodes only;
  \<^verbatim>\<open>node.disconnect\<close> on every node.\<close>

definition has_stop :: "world \<Rightarrow> node_id \<Rightarrow> bool" where
  "has_stop w i = (case heap w i of Some (OscillatorNode _ _ _) \<Rightarrow> True | _ \<Rightarrow> False)"

definition has_gain :: "world \<Rightarrow> node_id \<Rightarrow> bool" where
  "has_gain w i = (case heap w i of Some (GainNode _) \<Rightarrow> True | _ \<Rightarrow> False)"

definition has_disconnect :: "world \<Rightarrow> node_id \<Rightarrow> bool" where
  "has_disconnect w i = (heap w i \<noteq> None)"

subsection \<open>The methods of \<^verbatim>\<open>SoundEngine\<close>\<close>

definition initAudioContext :: "world \<Rightarrow> world" where
  "initAudioContext w =
     (let w1 = (case audioContext w of
                  None \<Rightarrow> w\<lparr>audioContext :=
                              Some \<lparr>ctx_state = new_context_state w, resume_requested = False\<rparr>\<rparr>
                | Some _ \<Rightarrow> w)
      in case audioContext w1 of
           Some c \<Rightarrow>
             if ctx_state c = Suspended
             then w1\<lparr>audioContext := Some (c\<lparr>resume_requested := True\<rparr>)\<rparr>
             else w1
         | None \<Rightarrow> w1)"

definition getVolume :: "world \<Rightarrow> sound_name \<Rightarrow> int" where
  "getVolume w soundName = (case volume_slider w soundName of Some v \<Rightarrow> v | None \<Rightarrow> 70)"

text \<open>\<^verbatim>\<open>sound.nodes.push(...)\<close> on the sound object of a key.\<close>

definition push_nodes :: "sound_name \<Rightarrow> node_id list \<Rightarrow> world \<Rightarrow> world" where
  "push_nodes s ns w = w\<lparr>sounds := (sounds w)(s := (sounds w s)\<lparr>nodes := nodes (sounds w s) @ ns\<rparr>)\<rparr>"

definition createRainSound :: "sound_name \<Rightarrow> world \<Rightarrow> world" where
  "createRainSound sound w0 =
     (let volume = real_of_int (getVolume w0 Rain) / 100;
          (gainNode, w1) = createGain w0;
          w2 = set_gain gainNode (volume * 0.3) w1;
          w3 = connect gainNode Destination w2;
          bufferSize = 4096;
          (brownNoise, w4) = createScriptProcessor bufferSize w3;
          w5 = set_onaudioprocess brownNoise 0.0 w4;
          w6 = connect brownNoise (Node gainNode) w5
      in push_nodes sound [brownNoise, gainNode] w6)"

definition createBinauralBeat :: "sound_name \<Rightarrow> real \<Rightarrow> world \<Rightarrow> world" where
  "createBinauralBeat sound frequency w0 =
     (let volume = real_of_int (getVolume w0 (if sound = Alpha then Alpha else Theta)) / 100;
          (gainNode, w1) = createGain w0;
          w2 = set_gain gainNode (volume * 0.2) w1;
          w3 = connect gainNode Destination w2;
          baseFreq = 200;
          (leftOsc, w4) = createOscillator w3;
          (rightOsc, w5) = createOscillator w4;
          w6 = set_frequency leftOsc baseFreq w5;
          w7 = set_frequency rightOsc (baseFreq + frequency) w6;
          w8 = set_type leftOsc Sine w7;
          w9 = set_type rightOsc Sine w8;
          (leftPanner, w10) = createStereoPanner w9;
          (rightPanner, w11) = createStereoPanner w10;
          w12 = set_pan leftPanner (- 1) w11;
          w13 = set_pan rightPanner 1 w12;
          w14 = connect leftOsc (Node leftPanner) w13;
          w15 = connect rightOsc (Node rightPanner) w14;
          w16 = connect leftPanner (Node gainNode) w15;
          w17 = connect rightPanner (Node gainNode) w16;
          w18 = node_start leftOsc w17;
          w19 = node_start rightOsc w18
      in push_nodes sound [leftOsc, rightOsc, leftPanner, rightPanner, gainNode] w19)"

definition playSound :: "sound_name \<Rightarrow> world \<Rightarrow> world" where
  "playSound soundName w0 =
     (let w1 = initAudioContext w0;
          w2 = (case soundName of
                  Rain \<Rightarrow> createRainSound soundName w1
                | Alpha \<Rightarrow> createBinauralBeat soundName 10 w1
                | Theta \<Rightarrow> createBinauralBeat soundName 6 w1
                | Beta \<Rightarrow> createBinauralBeat soundName 20 w1
                | Gamma \<Rightarrow> createBinauralBeat soundName 40 w1)
      in w2\<lparr>sounds := (sounds w2)(soundName := (sounds w2 soundName)\<lparr>playing := True\<rparr>)\<rparr>)"

text \<open>The body of the \<^verbatim>\<open>forEach\<close> in \<^verbatim>\<open>stopSound\<close>.\<close>

definition release_node :: "node_id \<Rightarrow> world \<Rightarrow> world" where
  "release_node node w =
     (let w1 = (if has_stop w node then try_stop node w else w)
      in if has_disconnect w1 node then disconnect node w1 else w1)"

definition stopSound :: "sound_name \<Rightarrow> world \<Rightarrow> world" where
  "stopSound soundName w0 =
     (let w1 = fold release_node (nodes (sounds w0 soundName)) w0
      in w1\<lparr>sounds := (sounds w1)(soundName := (sounds w1 soundName)\<lparr>nodes := [], playing := False\<rparr>)\<rparr>)"

definition toggleSound :: "sound_name \<Rightarrow> world \<Rightarrow> bool \<times> world" where
  "toggleSound soundName w0 =
     (let w1 = initAudioContext w0;
          w2 = (if playing (sounds w1 soundName) then stopSound soundName w1
                else playSound soundName w1)
      in (playing (sounds w2 soundName), w2))"

definition setVolume :: "sound_name \<Rightarrow> real \<Rightarrow> world \<Rightarrow> world" where
  "setVolume soundName volume w =
     (let sound = sounds w soundName
      in if playing sound \<and> length (nodes sound) > 0
         then (let gainNode = nodes sound ! (length (nodes sound) - 1)
               in if has_gain w gainNode
                  then (let multiplier = (if soundName = Rain then 0.3 else 0.2)
                        in set_gain gainNode ((volume / 100) * multiplier) w)
                  else w)
         else w)"

text \<open>\<^verbatim>\<open>status.textContent = t; status.classList.toggle('playing', p)\<close>, guarded by
  \<^verbatim>\<open>if (status)\<close>.\<close>

definition write_status :: "sound_name \<Rightarrow> string \<Rightarrow> bool \<Rightarrow> world \<Rightarrow> world" where
  "write_status soundName t p w =
     (case status w soundName of
        Some _ \<Rightarrow> w\<lparr>status := (status w)(soundName := Some \<lparr>textContent = t, class_playing = p\<rparr>)\<rparr>
      | None \<Rightarrow> w)"

definition stopAll_body :: "sound_name \<Rightarrow> world \<Rightarrow> world" where
  "stopAll_body soundName w =
     (if playing (sounds w soundName)
      then write_status soundName [] False (stopSound soundName w)
      else w)"

definition stopAllSounds :: "world \<Rightarrow> world" where
  "stopAllSounds w = (fold stopAll_body sound_keys w)\<lparr>currentPlayingSound := None\<rparr>"

definition pause_body :: "sound_name \<Rightarrow> world \<Rightarrow> world" where
  "pause_body soundName w =
     (if playing (sounds w soundName)
      then write_status soundName [] False
             (stopSound soundName (w\<lparr>currentPlayingSound := Some soundName\<rparr>))
      else w)"

definition pauseSounds :: "world \<Rightarrow> world" where
  "pauseSounds w = fold pause_body sound_keys w"

definition resumeSounds :: "world \<Rightarrow> world" where
  "resumeSounds w0 =
     (case currentPlayingSound w0 of
        Some soundName \<Rightarrow>
          (let (isPlaying, w1) = toggleSound soundName w0
           in write_status soundName (if isPlaying then ''Playing'' else []) isPlaying w1)
      | None \<Rightarrow> w0)"

subsection \<open>The brown-noise filter of the rain sound\<close>

text \<open>
  Line 97 of the source: the new filter state from the old one and a white sample.
\<close>

definition leaky :: "real \<Rightarrow> real \<Rightarrow> real" where
  "leaky lastOut white = (lastOut + (0.02 * white)) / 1.02"

text \<open>
  The handler \<^verbatim>\<open>onaudioprocess\<close>, run over the values \<^verbatim>\<open>Math.random()\<close> returns in
  one block: it gives the samples written to the output buffer and the new value of
  \<^verbatim>\<open>lastOut\<close>.
\<close>

fun onaudioprocess :: "real \<Rightarrow> real list \<Rightarrow> real list \<times> real" where
  "onaudioprocess lastOut [] = ([], lastOut)"
| "onaudioprocess lastOut (r # rs) =
     (let white = r * 2 - 1;
          out = leaky lastOut white;
          (output, lastOut') = onaudioprocess out rs
      in (out * 3.5 # output, lastOut'))"

subsection \<open>Observations and example states\<close>

text \<open>The state invariant of a sound: it is playing exactly when it owns nodes.\<close>

definition channel_inv :: "world \<Rightarrow> sound_name \<Rightarrow> bool" where
  "channel_inv w c = (playing (sounds w c) = (nodes (sounds w c) \<noteq> []))"

text \<open>\<^verbatim>\<open>node.gain.value\<close> of the node at an address, when that node is a gain node.\<close>

definition gain_value :: "world \<Rightarrow> node_id \<Rightarrow> real option" where
  "gain_value w i = (case heap w i of Some (GainNode g) \<Rightarrow> Some g | _ \<Rightarrow> None)"

text \<open>
  The gain stage of a sound is the last node of its list (the convention \<open>setVolume\<close>
  relies on); \<open>sound_gain\<close> reads its gain.
\<close>

definition sound_gain :: "world \<Rightarrow> sound_name \<Rightarrow> real option" where
  "sound_gain w s =
     (if nodes (sounds w s) = [] then None else gain_value w (last (nodes (sounds w s))))"

text \<open>The engine as constructed on a fresh page.\<close>

definition engine0 :: world where
  "engine0 = new_SoundEngine fresh_page"

text \<open>The same, after the user has moved the beta slider to 30.\<close>

definition beta_at_30 :: world where
  "beta_at_30 = engine0\<lparr>volume_slider := (volume_slider engine0)(Beta := Some 30)\<rparr>"

text \<open>
  The user starts alpha, the session is paused (alpha is remembered and stopped), and
  the user switches alpha on again by its button.
\<close>

definition alpha_restarted :: world where
  "alpha_restarted = snd (toggleSound Alpha (pauseSounds (snd (toggleSound Alpha engine0))))"

section \<open>Frame lemmas\<close>

text \<open>
  What each primitive and each builder writes, field by field. The heap is described
  pointwise, since the addresses of a builder's nodes are consecutive.
\<close>

lemma createNode_simps [simp]:
  "fst (createNode n w) = next_id w"
  "sounds (snd (createNode n w)) = sounds w"
  "currentPlayingSound (snd (createNode n w)) = currentPlayingSound w"
  "audioContext (snd (createNode n w)) = audioContext w"
  "status (snd (createNode n w)) = status w"
  "volume_slider (snd (createNode n w)) = volume_slider w"
  "new_context_state (snd (createNode n w)) = new_context_state w"
  "wires (snd (createNode n w)) = wires w"
  "next_id (snd (createNode n w)) = Suc (next_id w)"
  "heap (snd (createNode n w)) = (heap w)(next_id w \<mapsto> n)"
  by (simp_all add: createNode_def)

lemma update_node_simps [simp]:
  "sounds (update_node i f w) = sounds w"
  "currentPlayingSound (update_node i f w) = currentPlayingSound w"
  "audioContext (update_node i f w) = audioContext w"
  "status (update_node i f w) = status w"
  "volume_slider (update_node i f w) = volume_slider w"
  "new_context_state (update_node i f w) = new_context_state w"
  "wires (update_node i f w) = wires w"
  "next_id (update_node i f w) = next_id w"
  "heap (update_node i f w) j = (if j = i then map_option f (heap w i) else heap w j)"
  by (simp_all add: update_node_def split: option.splits)

lemma connect_simps [simp]:
  "sounds (connect a b w) = sounds w"
  "currentPlayingSound (connect a b w) = currentPlayingSound w"
  "audioContext (connect a b w) = audioContext w"
  "status (connect a b w) = status w"
  "volume_slider (connect a b w) = volume_slider w"
  "new_context_state (connect a b w) = new_context_state w"
  "wires (connect a b w) = wires w @ [(a, b)]"
  "next_id (connect a b w) = next_id w"
  "heap (connect a b w) = heap w"
  by (simp_all add: connect_def)

lemma disconnect_simps [simp]:
  "sounds (disconnect a w) = sounds w"
  "currentPlayingSound (disconnect a w) = currentPlayingSound w"
  "audioContext (disconnect a w) = audioContext w"
  "status (disconnect a w) = status w"
  "volume_slider (disconnect a w) = volume_slider w"
  "new_context_state (disconnect a w) = new_context_state w"
  "wires (disconnect a w) = filter (\<lambda>c. fst c \<noteq> a) (wires w)"
  "next_id (disconnect a w) = next_id w"
  "heap (disconnect a w) = heap w"
  by (simp_all add: disconnect_def)

lemma push_nodes_simps [simp]:
  "sounds (push_nodes s ns w) = (sounds w)(s := (sounds w s)\<lparr>nodes := nodes (sounds w s) @ ns\<rparr>)"
  "currentPlayingSound (push_nodes s ns w) = currentPlayingSound w"
  "audioContext (push_nodes s ns w) = audioContext w"
  "status (push_nodes s ns w) = status w"
  "volume_slider (push_nodes s ns w) = volume_slider w"
  "new_context_state (push_nodes s ns w) = new_context_state w"
  "wires (push_nodes s ns w) = wires w"
  "next_id (push_nodes s ns w) = next_id w"
  "heap (push_nodes s ns w) = heap w"
  by (simp_all add: push_nodes_def)

lemma initAudioContext_simps [simp]:
  "sounds (initAudioContext w) = sounds w"
  "currentPlayingSound (initAudioContext w) = currentPlayingSound w"
  "status (initAudioContext w) = status w"
  "volume_slider (initAudioContext w) = volume_slider w"
  "new_context_state (initAudioContext w) = new_context_state w"
  "wires (initAudioContext w) = wires w"
  "next_id (initAudioContext w) = next_id w"
  "heap (initAudioContext w) = heap w"
  by (simp_all add: initAudioContext_def Let_def split: option.splits)

lemma getVolume_initAudioContext [simp]: "getVolume (initAudioContext w) k = getVolume w k"
  by (simp add: getVolume_def)

lemmas builders = createBinauralBeat_def createRainSound_def Let_def split_def
  createGain_def createOscillator_def createStereoPanner_def createScriptProcessor_def
  set_gain_def set_frequency_def set_type_def set_pan_def set_onaudioprocess_def
  node_start_def eval_nat_numeral

lemma createBinauralBeat_simps [simp]:
  "sounds (createBinauralBeat s f w) =
     (sounds w)(s := (sounds w s)\<lparr>nodes := nodes (sounds w s) @
        [next_id w + 1, next_id w + 2, next_id w + 3, next_id w + 4, next_id w]\<rparr>)"
  "currentPlayingSound (createBinauralBeat s f w) = currentPlayingSound w"
  "audioContext (createBinauralBeat s f w) = audioContext w"
  "status (createBinauralBeat s f w) = status w"
  "volume_slider (createBinauralBeat s f w) = volume_slider w"
  "new_context_state (createBinauralBeat s f w) = new_context_state w"
  "next_id (createBinauralBeat s f w) = next_id w + 5"
  "wires (createBinauralBeat s f w) = wires w @
     [(next_id w, Destination),
      (next_id w + 1, Node (next_id w + 3)), (next_id w + 2, Node (next_id w + 4)),
      (next_id w + 3, Node (next_id w)), (next_id w + 4, Node (next_id w))]"
  by (simp_all add: builders)

lemma createBinauralBeat_heap:
  "heap (createBinauralBeat s f w) i =
     (if i = next_id w
        then Some (GainNode (real_of_int (getVolume w (if s = Alpha then Alpha else Theta)) / 100 * 0.2))
      else if i = next_id w + 1 then Some (OscillatorNode 200 Sine Started)
      else if i = next_id w + 2 then Some (OscillatorNode (200 + f) Sine Started)
      else if i = next_id w + 3 then Some (StereoPannerNode (- 1))
      else if i = next_id w + 4 then Some (StereoPannerNode 1)
      else heap w i)"
  by (simp add: builders)

lemma createRainSound_simps [simp]:
  "sounds (createRainSound s w) =
     (sounds w)(s := (sounds w s)\<lparr>nodes := nodes (sounds w s) @ [next_id w + 1, next_id w]\<rparr>)"
  "currentPlayingSound (createRainSound s w) = currentPlayingSound w"
  "audioContext (createRainSound s w) = audioContext w"
  "status (createRainSound s w) = status w"
  "volume_slider (createRainSound s w) = volume_slider w"
  "new_context_state (createRainSound s w) = new_context_state w"
  "next_id (createRainSound s w) = next_id w + 2"
  "wires (createRainSound s w) = wires w @
     [(next_id w, Destination), (next_id w + 1, Node (next_id w))]"
  by (simp_all add: builders)

lemma createRainSound_heap:
  "heap (createRainSound s w) i =
     (if i = next_id w then Some (GainNode (real_of_int (getVolume w Rain) / 100 * 0.3))
      else if i = next_id w + 1 then Some (ScriptProcessorNode 4096 (Some 0))
      else heap w i)"
  by (simp add: builders)

lemma sound_update_all [simp]:
  fixes r :: sound
  shows "r\<lparr>nodes := ns, playing := p\<rparr> = \<lparr>playing = p, nodes = ns\<rparr>"
    and "r\<lparr>playing := p, nodes := ns\<rparr> = \<lparr>playing = p, nodes = ns\<rparr>"
  by (cases r; simp)+

lemma release_node_simps [simp]:
  "sounds (release_node i w) = sounds w"
  "currentPlayingSound (release_node i w) = currentPlayingSound w"
  "audioContext (release_node i w) = audioContext w"
  "status (release_node i w) = status w"
  "volume_slider (release_node i w) = volume_slider w"
  "new_context_state (release_node i w) = new_context_state w"
  "next_id (release_node i w) = next_id w"
  by (simp_all add: release_node_def Let_def try_stop_def)

lemma fold_release_node_simps [simp]:
  "sounds (fold release_node ns w) = sounds w"
  "currentPlayingSound (fold release_node ns w) = currentPlayingSound w"
  "audioContext (fold release_node ns w) = audioContext w"
  "status (fold release_node ns w) = status w"
  "volume_slider (fold release_node ns w) = volume_slider w"
  "new_context_state (fold release_node ns w) = new_context_state w"
  "next_id (fold release_node ns w) = next_id w"
  by (induction ns arbitrary: w; simp)+

lemma stopSound_simps [simp]:
  "sounds (stopSound s w) = (sounds w)(s := \<lparr>playing = False, nodes = []\<rparr>)"
  "currentPlayingSound (stopSound s w) = currentPlayingSound w"
  "audioContext (stopSound s w) = audioContext w"
  "status (stopSound s w) = status w"
  "volume_slider (stopSound s w) = volume_slider w"
  "new_context_state (stopSound s w) = new_context_state w"
  "next_id (stopSound s w) = next_id w"
  by (simp_all add: stopSound_def Let_def)

lemma playSound_simps [simp]:
  "currentPlayingSound (playSound s w) = currentPlayingSound w"
  "status (playSound s w) = status w"
  "volume_slider (playSound s w) = volume_slider w"
  "new_context_state (playSound s w) = new_context_state w"
  "audioContext (playSound s w) = audioContext (initAudioContext w)"
  by (simp_all add: playSound_def Let_def split: sound_name.splits)

lemma playSound_sounds:
  "sounds (playSound s w) c =
     (if c = s
      then \<lparr>playing = True,
            nodes = nodes (sounds w s) @
              (if s = Rain then [next_id w + 1, next_id w]
               else [next_id w + 1, next_id w + 2, next_id w + 3, next_id w + 4, next_id w])\<rparr>
      else sounds w c)"
  by (cases s; simp add: playSound_def Let_def)

lemma write_status_simps [simp]:
  "sounds (write_status s t p w) = sounds w"
  "currentPlayingSound (write_status s t p w) = currentPlayingSound w"
  "audioContext (write_status s t p w) = audioContext w"
  "volume_slider (write_status s t p w) = volume_slider w"
  "new_context_state (write_status s t p w) = new_context_state w"
  "next_id (write_status s t p w) = next_id w"
  "heap (write_status s t p w) = heap w"
  "wires (write_status s t p w) = wires w"
  by (simp_all add: write_status_def split: option.splits)

lemma toggleSound_simps [simp]:
  "currentPlayingSound (snd (toggleSound s w)) = currentPlayingSound w"
  "status (snd (toggleSound s w)) = status w"
  "volume_slider (snd (toggleSound s w)) = volume_slider w"
  "fst (toggleSound s w) = playing (sounds (snd (toggleSound s w)) s)"
  by (simp_all add: toggleSound_def Let_def)

lemma toggleSound_playing:
  "playing (sounds (snd (toggleSound s w)) c) =
     (if c = s then \<not> playing (sounds w s) else playing (sounds w c))"
  by (simp add: toggleSound_def Let_def playSound_sounds)

lemma toggleSound_nodes_off:
  "playing (sounds w s) \<Longrightarrow> nodes (sounds (snd (toggleSound s w)) s) = []"
  by (simp add: toggleSound_def Let_def)

lemma stopAll_body_simps [simp]:
  "sounds (stopAll_body k w) =
     (if playing (sounds w k) then (sounds w)(k := \<lparr>playing = False, nodes = []\<rparr>) else sounds w)"
  "currentPlayingSound (stopAll_body k w) = currentPlayingSound w"
  "volume_slider (stopAll_body k w) = volume_slider w"
  by (simp_all add: stopAll_body_def)

lemma pause_body_simps [simp]:
  "sounds (pause_body k w) =
     (if playing (sounds w k) then (sounds w)(k := \<lparr>playing = False, nodes = []\<rparr>) else sounds w)"
  "currentPlayingSound (pause_body k w) =
     (if playing (sounds w k) then Some k else currentPlayingSound w)"
  "volume_slider (pause_body k w) = volume_slider w"
  by (simp_all add: pause_body_def)

lemma fold_stopAll_body_sounds:
  "sounds (fold stopAll_body ks w) c =
     (if c \<in> set ks \<and> playing (sounds w c) then \<lparr>playing = False, nodes = []\<rparr>
      else sounds w c)"
  by (induction ks arbitrary: w) auto

lemma fold_stopAll_body_current [simp]:
  "currentPlayingSound (fold stopAll_body ks w) = currentPlayingSound w"
  by (induction ks arbitrary: w) auto

lemma fold_pause_body_sounds:
  "sounds (fold pause_body ks w) c =
     (if c \<in> set ks \<and> playing (sounds w c) then \<lparr>playing = False, nodes = []\<rparr>
      else sounds w c)"
  by (induction ks arbitrary: w) auto

lemma fold_pause_body_idle:
  "\<forall>k \<in> set ks. \<not> playing (sounds w k) \<Longrightarrow> fold pause_body ks w = w"
  by (induction ks arbitrary: w) (auto simp: pause_body_def)

lemma fold_pause_body_single:
  assumes "playing (sounds w c)" and "\<forall>d. d \<noteq> c \<longrightarrow> \<not> playing (sounds w d)"
  shows "currentPlayingSound (fold pause_body ks w) =
           (if c \<in> set ks then Some c else currentPlayingSound w)"
  using assms
proof (induction ks arbitrary: w)
  case Nil
  then show ?case by simp
next
  case (Cons k ks)
  show ?case
  proof (cases "k = c")
    case True
    have idle: "\<forall>j \<in> set ks. \<not> playing (sounds (pause_body c w) j)"
      using Cons.prems by simp
    show ?thesis
      using True Cons.prems fold_pause_body_idle [OF idle] by simp
  next
    case False
    then have "pause_body k w = w"
      using Cons.prems by (simp add: pause_body_def)
    then show ?thesis
      using False Cons.IH [of w] Cons.prems by simp
  qed
qed

lemma set_sound_keys [simp]: "set sound_keys = UNIV"
proof -
  have "c \<in> set sound_keys" for c
    by (cases c; simp add: sound_keys_def)
  then show ?thesis by blast
qed

lemma stopAllSounds_simps [simp]:
  "sounds (stopAllSounds w) c =
     (if playing (sounds w c) then \<lparr>playing = False, nodes = []\<rparr> else sounds w c)"
  "currentPlayingSound (stopAllSounds w) = None"
  by (simp_all add: stopAllSounds_def fold_stopAll_body_sounds)

lemma pauseSounds_sounds [simp]:
  "sounds (pauseSounds w) c =
     (if playing (sounds w c) then \<lparr>playing = False, nodes = []\<rparr> else sounds w c)"
  by (simp add: pauseSounds_def fold_pause_body_sounds)

lemma resumeSounds_simps:
  "currentPlayingSound (resumeSounds w) = currentPlayingSound w"
  "sounds (resumeSounds w) =
     (case currentPlayingSound w of None \<Rightarrow> sounds w
      | Some s \<Rightarrow> sounds (snd (toggleSound s w)))"
  by (simp_all add: resumeSounds_def split_def Let_def split: option.splits)

lemma engine0_simps [simp]:
  "sounds engine0 c = \<lparr>playing = False, nodes = []\<rparr>"
  "currentPlayingSound engine0 = None"
  "volume_slider engine0 c = Some 70"
  "status engine0 c = Some \<lparr>textContent = [], class_playing = False\<rparr>"
  "next_id engine0 = 0"
  "heap engine0 = Map.empty"
  "wires engine0 = []"
  by (simp_all add: engine0_def new_SoundEngine_def fresh_page_def)

lemma setVolume_simps [simp]:
  "sounds (setVolume s v w) = sounds w"
  "currentPlayingSound (setVolume s v w) = currentPlayingSound w"
  "status (setVolume s v w) = status w"
  "volume_slider (setVolume s v w) = volume_slider w"
  by (simp_all add: setVolume_def Let_def set_gain_def)

lemma write_status_status:
  "status (write_status s t p w) c =
     (if c = s \<and> status w s \<noteq> None then Some \<lparr>textContent = t, class_playing = p\<rparr>
      else status w c)"
  by (simp add: write_status_def split: option.splits)

lemma pauseSounds_idle:
  "\<forall>c. \<not> playing (sounds w c) \<Longrightarrow> pauseSounds w = w"
  by (simp add: pauseSounds_def fold_pause_body_idle)

lemma pauseSounds_current_single:
  "playing (sounds w c) \<Longrightarrow> \<forall>d. d \<noteq> c \<longrightarrow> \<not> playing (sounds w d) \<Longrightarrow>
   currentPlayingSound (pauseSounds w) = Some c"
  unfolding pauseSounds_def using fold_pause_body_single [of w c sound_keys] by simp

lemma stopSound_idem: "stopSound s (stopSound s w) = stopSound s w"
proof -
  have "nodes (sounds (stopSound s w) s) = []" by simp
  then show ?thesis
    by (simp add: stopSound_def [of s "stopSound s w"] Let_def)
qed

lemma channel_inv_resumeSounds:
  "channel_inv w c \<Longrightarrow> channel_inv (resumeSounds w) c"
  by (cases "currentPlayingSound w")
     (simp_all add: channel_inv_def resumeSounds_simps toggleSound_def Let_def playSound_sounds)

lemma after_resume [simp]:
  "currentPlayingSound (resumeSounds (pauseSounds (snd (toggleSound Alpha engine0)))) = Some Alpha"
  "playing (sounds (resumeSounds (pauseSounds (snd (toggleSound Alpha engine0)))) c) = (c = Alpha)"
proof -
  have cur: "currentPlayingSound (pauseSounds (snd (toggleSound Alpha engine0))) = Some Alpha"
    by (rule pauseSounds_current_single) (simp_all add: toggleSound_playing)
  show "currentPlayingSound (resumeSounds (pauseSounds (snd (toggleSound Alpha engine0)))) = Some Alpha"
    by (simp add: resumeSounds_simps cur)
  show "playing (sounds (resumeSounds (pauseSounds (snd (toggleSound Alpha engine0)))) c) = (c = Alpha)"
    by (simp add: resumeSounds_simps cur toggleSound_playing)
qed

lemma alpha_restarted_simps [simp]:
  "currentPlayingSound alpha_restarted = Some Alpha"
  "playing (sounds alpha_restarted c) = (c = Alpha)"
  "status alpha_restarted Alpha = Some \<lparr>textContent = [], class_playing = False\<rparr>"
proof -
  have cur: "currentPlayingSound (pauseSounds (snd (toggleSound Alpha engine0))) = Some Alpha"
    by (rule pauseSounds_current_single) (simp_all add: toggleSound_playing)
  show "currentPlayingSound alpha_restarted = Some Alpha"
    by (simp add: alpha_restarted_def cur)
  show "playing (sounds alpha_restarted c) = (c = Alpha)"
    by (simp add: alpha_restarted_def toggleSound_playing)
  show "status alpha_restarted Alpha = Some \<lparr>textContent = [], class_playing = False\<rparr>"
    by (simp add: alpha_restarted_def pauseSounds_def sound_keys_def pause_body_def
        toggleSound_playing write_status_status)
qed

lemma playSound_graph:
  "heap (playSound s w) =
     heap (case s of Rain \<Rightarrow> createRainSound s (initAudioContext w)
           | Alpha \<Rightarrow> createBinauralBeat s 10 (initAudioContext w)
           | Theta \<Rightarrow> createBinauralBeat s 6 (initAudioContext w)
           | Beta \<Rightarrow> createBinauralBeat s 20 (initAudioContext w)
           | Gamma \<Rightarrow> createBinauralBeat s 40 (initAudioContext w))"
  "wires (playSound s w) =
     wires (case s of Rain \<Rightarrow> createRainSound s (initAudioContext w)
           | Alpha \<Rightarrow> createBinauralBeat s 10 (initAudioContext w)
           | Theta \<Rightarrow> createBinauralBeat s 6 (initAudioContext w)
           | Beta \<Rightarrow> createBinauralBeat s 20 (initAudioContext w)
           | Gamma \<Rightarrow> createBinauralBeat s 40 (initAudioContext w))"
  "next_id (playSound s w) = next_id w + (if s = Rain then 2 else 5)"
  by (simp_all add: playSound_def Let_def split: sound_name.splits)

lemma sound_gain_playSound:
  "sound_gain (playSound s w) s =
     Some (real_of_int (getVolume w (if s = Rain then Rain else if s = Alpha then Alpha else Theta))
             / 100 * (if s = Rain then 0.3 else 0.2))"
  by (cases s)
     (simp_all add: sound_gain_def gain_value_def playSound_sounds playSound_graph
        createBinauralBeat_heap createRainSound_heap)

lemma setVolume_not_playing: "\<not> playing (sounds w s) \<Longrightarrow> setVolume s v w = w"
  by (simp add: setVolume_def Let_def)

lemma leaky_step: "\<bar>y\<bar> \<le> 1 \<Longrightarrow> \<bar>x\<bar> \<le> 1 \<Longrightarrow> \<bar>leaky y x\<bar> \<le> 1"
  by (simp add: leaky_def abs_le_iff field_simps)

lemma foldl_leaky_bound:
  "\<bar>y\<bar> \<le> 1 \<Longrightarrow> \<forall>x \<in> set xs. \<bar>x\<bar> \<le> 1 \<Longrightarrow> \<bar>foldl leaky y xs\<bar> \<le> 1"
  by (induction xs arbitrary: y) (simp_all add: leaky_step)

lemma onaudioprocess_lastOut:
  "snd (onaudioprocess y rs) = foldl leaky y (map (\<lambda>r. r * 2 - 1) rs)"
  by (induction rs arbitrary: y) (simp_all add: Let_def split_def)

section \<open>Pause, resume and stop-all\<close>

text \<open>
  C2. If exactly one sound is playing, \<open>pauseSounds\<close> followed by \<open>resumeSounds\<close>
  leaves that sound playing and every other sound stopped.
\<close>

theorem pause_resume_single:
  assumes "playing (sounds w c)" and "\<forall>d. d \<noteq> c \<longrightarrow> \<not> playing (sounds w d)"
  shows "playing (sounds (resumeSounds (pauseSounds w)) c)
         \<and> (\<forall>d. d \<noteq> c \<longrightarrow> \<not> playing (sounds (resumeSounds (pauseSounds w)) d))"
proof -
  have remembered: "currentPlayingSound (pauseSounds w) = Some c"
    unfolding pauseSounds_def using fold_pause_body_single [OF assms, of sound_keys] by simp
  show ?thesis
    using assms(2) by (simp add: resumeSounds_simps remembered toggleSound_playing)
qed

theorem pause_resume_single_witness:
  "playing (sounds (snd (toggleSound Theta engine0)) Theta)
   \<and> \<not> playing (sounds (snd (toggleSound Theta engine0)) Rain)
   \<and> \<not> playing (sounds (snd (toggleSound Theta engine0)) Alpha)
   \<and> \<not> playing (sounds (snd (toggleSound Theta engine0)) Beta)
   \<and> \<not> playing (sounds (snd (toggleSound Theta engine0)) Gamma)
   \<and> playing (sounds (resumeSounds (pauseSounds (snd (toggleSound Theta engine0)))) Theta)
   \<and> \<not> playing (sounds (resumeSounds (pauseSounds (snd (toggleSound Theta engine0)))) Rain)
   \<and> \<not> playing (sounds (resumeSounds (pauseSounds (snd (toggleSound Theta engine0)))) Alpha)
   \<and> \<not> playing (sounds (resumeSounds (pauseSounds (snd (toggleSound Theta engine0)))) Beta)
   \<and> \<not> playing (sounds (resumeSounds (pauseSounds (snd (toggleSound Theta engine0)))) Gamma)"
  using pause_resume_single [of "snd (toggleSound Theta engine0)" Theta]
  by (simp add: toggleSound_playing)

text \<open>
  C4. In every state, also with several sounds playing, \<open>stopAllSounds\<close> leaves no
  sound playing and forgets the remembered sound, so that a following \<open>resumeSounds\<close>
  changes nothing at all.
\<close>

theorem stopAllSounds_stops_and_forgets:
  "(\<forall>c. \<not> playing (sounds (stopAllSounds w) c))
   \<and> currentPlayingSound (stopAllSounds w) = None
   \<and> resumeSounds (stopAllSounds w) = stopAllSounds w"
  by (simp add: resumeSounds_def)

text \<open>
  C10. When no sound is playing, \<open>pauseSounds\<close> leaves the remembered sound as it is;
  \<open>toggleSound\<close> never changes it, in particular not when it stops a sound. So a sound
  that was remembered and has since been switched off by its own button is started by
  \<open>pauseSounds\<close> followed by \<open>resumeSounds\<close>.
\<close>

theorem remembered_sound_survives:
  "((\<forall>c. \<not> playing (sounds w c)) \<longrightarrow>
      currentPlayingSound (pauseSounds w) = currentPlayingSound w)
   \<and> currentPlayingSound (snd (toggleSound s w)) = currentPlayingSound w
   \<and> (currentPlayingSound w = Some s \<and> playing (sounds w s)
        \<and> (\<forall>d. d \<noteq> s \<longrightarrow> \<not> playing (sounds w d)) \<longrightarrow>
      \<not> playing (sounds (snd (toggleSound s w)) s)
      \<and> playing (sounds (resumeSounds (pauseSounds (snd (toggleSound s w)))) s))"
proof -
  have a: "currentPlayingSound (pauseSounds w) = currentPlayingSound w"
    if "\<forall>c. \<not> playing (sounds w c)"
    using that by (simp add: pauseSounds_idle)
  have c: "\<not> playing (sounds (snd (toggleSound s w)) s)
      \<and> playing (sounds (resumeSounds (pauseSounds (snd (toggleSound s w)))) s)"
    if "currentPlayingSound w = Some s" "playing (sounds w s)"
       "\<forall>d. d \<noteq> s \<longrightarrow> \<not> playing (sounds w d)"
  proof -
    have idle: "\<forall>c. \<not> playing (sounds (snd (toggleSound s w)) c)"
      using that by (simp add: toggleSound_playing)
    show ?thesis
      using that by (simp add: pauseSounds_idle [OF idle] resumeSounds_simps toggleSound_playing)
  qed
  show ?thesis using a c by simp
qed

theorem remembered_sound_survives_witness:
  "currentPlayingSound (resumeSounds (pauseSounds (snd (toggleSound Alpha engine0)))) = Some Alpha
   \<and> playing (sounds (resumeSounds (pauseSounds (snd (toggleSound Alpha engine0)))) Alpha)
   \<and> \<not> playing (sounds (resumeSounds (pauseSounds (snd (toggleSound Alpha engine0)))) Rain)
   \<and> \<not> playing (sounds (resumeSounds (pauseSounds (snd (toggleSound Alpha engine0)))) Theta)
   \<and> \<not> playing (sounds (resumeSounds (pauseSounds (snd (toggleSound Alpha engine0)))) Beta)
   \<and> \<not> playing (sounds (resumeSounds (pauseSounds (snd (toggleSound Alpha engine0)))) Gamma)
   \<and> \<not> playing (sounds (snd (toggleSound Alpha
          (resumeSounds (pauseSounds (snd (toggleSound Alpha engine0)))))) Alpha)
   \<and> playing (sounds (resumeSounds (pauseSounds (snd (toggleSound Alpha
          (resumeSounds (pauseSounds (snd (toggleSound Alpha engine0)))))))) Alpha)"
  using remembered_sound_survives
    [of "resumeSounds (pauseSounds (snd (toggleSound Alpha engine0)))" Alpha]
  by simp

text \<open>
  C3. \<open>resumeSounds\<close> is to turn the remembered sound on, whether or not it is already
  playing. It calls \<open>toggleSound\<close>, though: in the state \<open>alpha_restarted\<close>, where alpha
  is both remembered and playing, \<open>resumeSounds\<close> stops alpha, empties its node list and
  clears its status element.
\<close>

theorem resumeSounds_stops_playing_sound:
  "currentPlayingSound alpha_restarted = Some Alpha
   \<and> playing (sounds alpha_restarted Alpha)
   \<and> \<not> playing (sounds (resumeSounds alpha_restarted) Alpha)
   \<and> nodes (sounds (resumeSounds alpha_restarted) Alpha) = []
   \<and> status (resumeSounds alpha_restarted) Alpha = Some \<lparr>textContent = [], class_playing = False\<rparr>"
  by (simp add: resumeSounds_def split_def Let_def toggleSound_playing toggleSound_nodes_off
      write_status_status)


section \<open>Toggling\<close>

text \<open>
  C8. On a stopped sound, two calls of \<open>toggleSound\<close> in succession return \<open>true\<close> and
  then \<open>false\<close>, and leave the sound stopped: not playing, with an empty node list.
\<close>

theorem toggleSound_twice:
  assumes "\<not> playing (sounds w s)"
  shows "fst (toggleSound s w)
         \<and> \<not> fst (toggleSound s (snd (toggleSound s w)))
         \<and> \<not> playing (sounds (snd (toggleSound s (snd (toggleSound s w)))) s)
         \<and> nodes (sounds (snd (toggleSound s (snd (toggleSound s w)))) s) = []"
  using assms by (simp add: toggleSound_playing toggleSound_nodes_off)

theorem toggleSound_twice_witness:
  "\<not> playing (sounds engine0 Alpha)
   \<and> fst (toggleSound Alpha engine0)
   \<and> \<not> fst (toggleSound Alpha (snd (toggleSound Alpha engine0)))
   \<and> \<not> playing (sounds (snd (toggleSound Alpha (snd (toggleSound Alpha engine0)))) Alpha)
   \<and> nodes (sounds (snd (toggleSound Alpha (snd (toggleSound Alpha engine0)))) Alpha) = []"
  using toggleSound_twice [of engine0 Alpha] by simp

section \<open>The state invariant of a sound\<close>

text \<open>
  C5. After \<open>playSound\<close> the sound is playing and its node list is not empty; after
  \<open>stopSound\<close> it is not playing and its node list is empty; a second \<open>stopSound\<close>
  changes nothing; and the invariant "playing exactly when the node list is not empty"
  holds of every sound of a new engine and is kept, for every sound, by every method.
\<close>

theorem channel_invariant:
  "playing (sounds (playSound s w) s) \<and> nodes (sounds (playSound s w) s) \<noteq> []
   \<and> \<not> playing (sounds (stopSound s w) s) \<and> nodes (sounds (stopSound s w) s) = []
   \<and> stopSound s (stopSound s w) = stopSound s w
   \<and> channel_inv (new_SoundEngine w) c
   \<and> (channel_inv w c \<longrightarrow>
        channel_inv (initAudioContext w) c
        \<and> channel_inv (playSound s w) c
        \<and> channel_inv (stopSound s w) c
        \<and> channel_inv (snd (toggleSound s w)) c
        \<and> channel_inv (setVolume s v w) c
        \<and> channel_inv (stopAllSounds w) c
        \<and> channel_inv (pauseSounds w) c
        \<and> channel_inv (resumeSounds w) c)"
proof -
  have start: "playing (sounds (playSound s w) s) \<and> nodes (sounds (playSound s w) s) \<noteq> []"
    by (simp add: playSound_sounds)
  have stop: "\<not> playing (sounds (stopSound s w) s) \<and> nodes (sounds (stopSound s w) s) = []"
    by simp
  have init: "channel_inv (new_SoundEngine w) c"
    by (simp add: channel_inv_def new_SoundEngine_def)
  have pres: "channel_inv (initAudioContext w) c \<and> channel_inv (playSound s w) c
        \<and> channel_inv (stopSound s w) c \<and> channel_inv (snd (toggleSound s w)) c
        \<and> channel_inv (setVolume s v w) c \<and> channel_inv (stopAllSounds w) c
        \<and> channel_inv (pauseSounds w) c \<and> channel_inv (resumeSounds w) c"
    if inv: "channel_inv w c"
  proof -
    have "channel_inv (initAudioContext w) c" "channel_inv (playSound s w) c"
      "channel_inv (stopSound s w) c" "channel_inv (setVolume s v w) c"
      "channel_inv (stopAllSounds w) c" "channel_inv (pauseSounds w) c"
      using inv by (simp_all add: channel_inv_def playSound_sounds)
    moreover have "channel_inv (snd (toggleSound s w)) c"
      using inv by (simp add: channel_inv_def toggleSound_def Let_def playSound_sounds)
    moreover have "channel_inv (resumeSounds w) c"
      using inv by (rule channel_inv_resumeSounds)
    ultimately show ?thesis by simp
  qed
  show ?thesis
    using start stop init pres stopSound_idem [of s w] by blast
qed

theorem channel_invariant_witness:
  "channel_inv engine0 Rain
   \<and> channel_inv (snd (toggleSound Rain engine0)) Rain
   \<and> channel_inv (pauseSounds (snd (toggleSound Rain engine0))) Rain
   \<and> playing (sounds (playSound Rain engine0) Rain)
   \<and> nodes (sounds (playSound Rain engine0) Rain) = [1, 0]
   \<and> stopSound Rain (stopSound Rain (playSound Rain engine0)) = stopSound Rain (playSound Rain engine0)"
  using channel_invariant [of Rain engine0 Rain 50]
    channel_invariant [of Rain "snd (toggleSound Rain engine0)" Rain 50]
    channel_invariant [of Rain "playSound Rain engine0"]
  by (simp add: channel_inv_def playSound_sounds)

section \<open>Building the graph of a binaural beat\<close>

text \<open>
  C7. Starting a binaural sound with beat frequency \<open>f\<close> (10 for alpha, 6 for theta,
  20 for beta, 40 for gamma) creates five nodes and appends them to the node list: two
  started sine oscillators, the left at 200 Hz and the right at \<open>200 + f\<close> Hz (so right
  minus left is \<open>f\<close>), a panner at \<open>-1\<close> fed by the left oscillator, a panner at \<open>1\<close>
  fed by the right one, and a gain node both panners feed, connected to the destination.
\<close>

theorem binaural_graph:
  assumes "(s, f) \<in> {(Alpha, 10), (Theta, 6), (Beta, 20), (Gamma, 40)}"
  shows "nodes (sounds (playSound s w) s) =
           nodes (sounds w s) @
             [next_id w + 1, next_id w + 2, next_id w + 3, next_id w + 4, next_id w]
         \<and> next_id (playSound s w) = next_id w + 5
         \<and> heap (playSound s w) (next_id w + 1) = Some (OscillatorNode 200 Sine Started)
         \<and> heap (playSound s w) (next_id w + 2) = Some (OscillatorNode (200 + f) Sine Started)
         \<and> heap (playSound s w) (next_id w + 3) = Some (StereoPannerNode (- 1))
         \<and> heap (playSound s w) (next_id w + 4) = Some (StereoPannerNode 1)
         \<and> has_gain (playSound s w) (next_id w)
         \<and> wires (playSound s w) =
             wires w @
               [(next_id w, Destination),
                (next_id w + 1, Node (next_id w + 3)), (next_id w + 2, Node (next_id w + 4)),
                (next_id w + 3, Node (next_id w)), (next_id w + 4, Node (next_id w))]"
  using assms
  by (auto simp: playSound_sounds playSound_graph createBinauralBeat_heap has_gain_def)

theorem binaural_graph_witness:
  "nodes (sounds (playSound Gamma engine0) Gamma) = [1, 2, 3, 4, 0]
   \<and> next_id (playSound Gamma engine0) = 5
   \<and> heap (playSound Gamma engine0) 1 = Some (OscillatorNode 200 Sine Started)
   \<and> heap (playSound Gamma engine0) 2 = Some (OscillatorNode 240 Sine Started)
   \<and> heap (playSound Gamma engine0) 3 = Some (StereoPannerNode (- 1))
   \<and> heap (playSound Gamma engine0) 4 = Some (StereoPannerNode 1)
   \<and> wires (playSound Gamma engine0) =
        [(0, Destination), (1, Node 3), (2, Node 4), (3, Node 0), (4, Node 0)]"
  using binaural_graph [of Gamma 40 engine0] by (simp add: numeral_2_eq_2)

text \<open>
  C1. The gain of a binaural sound is to be 0.2 times the requested volume of that sound
  over 100. \<open>createBinauralBeat\<close> reads the alpha slider for alpha and the theta slider
  for every other sound: with the beta slider at 30 and the theta slider at 70, starting
  beta gives the gain \<open>0.2 * (70 / 100)\<close>, not \<open>0.2 * (30 / 100)\<close>.
\<close>

theorem beta_gain_reads_theta_slider:
  "getVolume beta_at_30 Beta = 30
   \<and> getVolume beta_at_30 Theta = 70
   \<and> sound_gain (playSound Beta beta_at_30) Beta = Some (0.2 * (70 / 100))
   \<and> sound_gain (playSound Beta beta_at_30) Beta
        \<noteq> Some (0.2 * (real_of_int (getVolume beta_at_30 Beta) / 100))"
  by (simp add: sound_gain_playSound getVolume_def beta_at_30_def)

section \<open>Volume of a stopped sound\<close>

text \<open>
  C9. On a sound that is not playing, \<open>setVolume\<close> is to change nothing, and the percent
  is to take effect when the sound is next started, read from the volume sliders at that
  time. The first half holds of every stopped sound (\<open>setVolume_not_playing\<close>). The
  second half fails for beta and gamma, whose start reads the theta slider: with the beta
  slider moved to 30 while beta is stopped, and the theta slider at 70,
  \<open>setVolume Beta 30\<close> changes nothing and the next start of beta sets the gain
  \<open>0.2 * (70 / 100)\<close>, not \<open>0.2 * (30 / 100)\<close>.
\<close>

theorem setVolume_stopped_beta_percent_lost:
  "\<not> playing (sounds beta_at_30 Beta)
   \<and> getVolume beta_at_30 Beta = 30
   \<and> setVolume Beta 30 beta_at_30 = beta_at_30
   \<and> sound_gain (playSound Beta (setVolume Beta 30 beta_at_30)) Beta = Some (0.2 * (70 / 100))
   \<and> sound_gain (playSound Beta (setVolume Beta 30 beta_at_30)) Beta \<noteq> Some (0.2 * (30 / 100))"
proof -
  have stopped: "\<not> playing (sounds beta_at_30 Beta)"
    by (simp add: beta_at_30_def)
  have same: "setVolume Beta 30 beta_at_30 = beta_at_30"
    using stopped by (rule setVolume_not_playing)
  show ?thesis
    using stopped
    by (simp add: same sound_gain_playSound) (simp add: getVolume_def beta_at_30_def)
qed

section \<open>The leaky integrator stays bounded\<close>

text \<open>
  C6. For inputs \<open>x\<close> in \<open>[-1, 1]\<close> and initial state \<open>0\<close>, every state of the recurrence
  \<open>y[n] = (y[n-1] + 0.02 * x[n]) / 1.02\<close> has absolute value at most \<open>1.01\<close>; and this
  recurrence is what the audio callback computes in \<open>lastOut\<close>, the white sample being
  \<open>Math.random() * 2 - 1\<close>.
\<close>

theorem leaky_bounded:
  assumes "\<forall>x \<in> set xs. - 1 \<le> x \<and> x \<le> 1"
  shows "(\<forall>n \<le> length xs. \<bar>foldl leaky 0 (take n xs)\<bar> \<le> 1.01)
         \<and> snd (onaudioprocess 0 (map (\<lambda>x. (x + 1) / 2) xs)) = foldl leaky 0 xs"
proof -
  have "\<bar>foldl leaky 0 (take n xs)\<bar> \<le> 1" for n
  proof (rule foldl_leaky_bound)
    show "\<bar>0::real\<bar> \<le> 1" by simp
    show "\<forall>x \<in> set (take n xs). \<bar>x\<bar> \<le> 1"
      using assms by (auto simp: abs_le_iff dest: in_set_takeD)
  qed
  then have "\<bar>foldl leaky 0 (take n xs)\<bar> \<le> 1.01" for n
    by (rule order_trans) simp
  then have bound: "\<forall>n \<le> length xs. \<bar>foldl leaky 0 (take n xs)\<bar> \<le> 1.01"
    by simp
  have "(x + 1) / 2 * 2 - 1 = x" for x :: real
    by (simp add: field_simps)
  then have "map ((\<lambda>r. r * 2 - 1) \<circ> (\<lambda>x. (x + 1) / 2)) xs = xs"
    by (simp add: comp_def)
  then have "snd (onaudioprocess 0 (map (\<lambda>x. (x + 1) / 2) xs)) = foldl leaky 0 xs"
    by (simp add: onaudioprocess_lastOut)
  with bound show ?thesis by simp
qed

theorem leaky_bounded_witness:
  "- 1 \<le> (1::real) \<and> (1::real) \<le> 1 \<and> - 1 \<le> (- 1::real) \<and> (- 1::real) \<le> 1
   \<and> \<bar>foldl leaky 0 [1, 1, - 1]\<bar> \<le> 1.01
   \<and> snd (onaudioprocess 0 [1, 1, 0]) = foldl leaky 0 [1, 1, - 1]"
proof -
  have h: "\<forall>x \<in> set [1, 1, - 1 :: real]. - 1 \<le> x \<and> x \<le> 1" by simp
  have "length [1, 1, - 1 :: real] \<le> length [1, 1, - 1 :: real]" by simp
  with leaky_bounded [OF h] have "\<bar>foldl leaky 0 (take (length [1, 1, - 1 :: real]) [1, 1, - 1])\<bar> \<le> 1.01"
    by blast
  moreover from leaky_bounded [OF h]
  have "snd (onaudioprocess 0 [1, 1, 0]) = foldl leaky 0 [1, 1, - 1]" by simp
  ultimately show ?thesis by simp
qed


end
